theory Spec2Isabelle
  imports Main
begin

section \<open>httpsuite: request parsing, validation and the response envelope\<close>

text \<open>
  A shallow embedding of the Go package \<^verbatim>\<open>httpsuite\<close>: \<^verbatim>\<open>response.go\<close> (the envelope
  writer), \<^verbatim>\<open>request.go\<close> (the request pipeline), the validation adapter that returns
  problem details, and the problem-type registry of \<^verbatim>\<open>problem_details.go\<close>.

  What the package takes from outside is a parameter of the model: the JSON encoder and
  decoder of \<^verbatim>\<open>encoding/json\<close>, the rule engine of \<^verbatim>\<open>go-playground/validator\<close>, the
  \<^verbatim>\<open>SetParam\<close> method of the request type and the caller's \<^verbatim>\<open>ParamExtractor\<close>.
  A Go \<^verbatim>\<open>error\<close> is represented by its message, the string \<^verbatim>\<open>err.Error()\<close> returns.
  Calls of \<^verbatim>\<open>log.Printf\<close> are left out, and so are the read/write lock of the registry
  and the deferred \<^verbatim>\<open>r.Body.Close()\<close> of \<^verbatim>\<open>ParseRequest\<close>: nothing below reads the request
  after the call.

  The repository's files hold several versions of the package. The model follows the one
  in which \<^verbatim>\<open>ParseRequest\<close> takes a \<^verbatim>\<open>ParamExtractor\<close>, \<^verbatim>\<open>IsRequestValid\<close> returns
  \<^verbatim>\<open>*ProblemDetails\<close> and \<^verbatim>\<open>NewProblemDetails\<close> takes three arguments, which is the version of
  \<^verbatim>\<open>request.go\<close>; the registry is the one of \<^verbatim>\<open>problem_details.go\<close>.
\<close>

type_synonym error = string

subsection \<open>JSON documents\<close>

text \<open>
  The encoder's output is kept as a document tree; an object keeps its members in the
  order the encoder writes them.
\<close>

datatype json =
    JNull
  | JBool bool
  | JNumber int
  | JString string
  | JArray "json list"
  | JObject "(string \<times> json) list"

subsection \<open>What the validator returns\<close>

text \<open>
  What \<^verbatim>\<open>validate.Struct\<close> of go-playground/validator returns: nil, the violated
  constraints (\<^verbatim>\<open>validator.ValidationErrors\<close>, each \<^verbatim>\<open>FieldError\<close> read through its
  methods \<^verbatim>\<open>Field()\<close> and \<^verbatim>\<open>Tag()\<close>), or an error of another type.
\<close>

datatype FieldError = FieldError (Field: string) (Tag: string)

datatype validator_error =
    ValidationErrors "FieldError list"
  | InvalidValidationError string

subsection \<open>The types of response.go\<close>

text \<open>\<^verbatim>\<open>ValidationErrorDetail\<close>: one entry of a validation problem's error list.\<close>

record ValidationErrorDetail =
  Field :: string
  Message :: string

text \<open>
  A value of Go's \<^verbatim>\<open>interface{}\<close>, as far as the package builds such values itself
  (\<^verbatim>\<open>nil\<close>, a string, a slice of \<^verbatim>\<open>ValidationErrorDetail\<close>). Any other dynamic value
  is \<open>AnyOther\<close>, represented by what \<^verbatim>\<open>encoding/json\<close> returns for it: the document, or
  the encoder's error (a channel, a function, a NaN, a failing \<^verbatim>\<open>MarshalJSON\<close>).
\<close>

datatype any =
    AnyNil
  | AnyString string
  | AnyErrorDetails "ValidationErrorDetail list"
  | AnyOther "error + json"

text \<open>
  \<^verbatim>\<open>ProblemDetails\<close>. \<open>Extensions\<close> is a Go map: its entries are listed in the order
  the encoder writes them, and the empty list is the nil (or empty) map.
\<close>

record ProblemDetails =
  Type :: string
  Title :: string
  Status :: int
  Detail :: string
  Instance :: string
  Extensions :: "(string \<times> any) list"

record Meta =
  Page :: int
  PageSize :: int
  TotalPages :: int
  TotalItems :: int

text \<open>
  The type parameter \<^verbatim>\<open>T\<close> of \<^verbatim>\<open>Response[T]\<close> and \<^verbatim>\<open>SendResponse[T]\<close>, as the encoder
  sees it: whether a value of \<^verbatim>\<open>T\<close> is empty for \<^verbatim>\<open>omitempty\<close>, and its encoding.
\<close>

record 'a encoding =
  isEmptyValue :: "'a \<Rightarrow> bool"
  marshal :: "'a \<Rightarrow> error + json"

abbreviation StatusBadRequest :: int where
  "StatusBadRequest \<equiv> 400"

abbreviation StatusInternalServerError :: int where
  "StatusInternalServerError \<equiv> 500"

text \<open>\<^verbatim>\<open>NewProblemDetails(status, title, detail)\<close> of response.go.\<close>

definition NewProblemDetails :: "int \<Rightarrow> string \<Rightarrow> string \<Rightarrow> ProblemDetails" where
  "NewProblemDetails status title detail =
     \<lparr>Type = ''about:blank'', Title = title, Status = status, Detail = detail,
      Instance = [], Extensions = []\<rparr>"

subsection \<open>Encoding, as the struct tags of response.go direct it\<close>

definition marshalErrorDetail :: "ValidationErrorDetail \<Rightarrow> json" where
  "marshalErrorDetail d =
     JObject [(''field'', JString (Field d)), (''message'', JString (Message d))]"

fun marshalAny :: "any \<Rightarrow> error + json" where
  "marshalAny AnyNil = Inr JNull"
| "marshalAny (AnyString s) = Inr (JString s)"
| "marshalAny (AnyErrorDetails ds) = Inr (JArray (map marshalErrorDetail ds))"
| "marshalAny (AnyOther r) = r"

text \<open>The encoding of \<^verbatim>\<open>T = any\<close>: an interface field is empty when it is nil.\<close>

definition anyEncoding :: "any encoding" where
  "anyEncoding = \<lparr>isEmptyValue = (\<lambda>v. v = AnyNil), marshal = marshalAny\<rparr>"

text \<open>A map's members, encoded one after the other; the first error ends the encoding.\<close>

fun marshalMembers :: "(string \<times> any) list \<Rightarrow> error + (string \<times> json) list" where
  "marshalMembers [] = Inr []"
| "marshalMembers ((k, v) # kvs) =
     (case marshalAny v of
        Inl e \<Rightarrow> Inl e
      | Inr j \<Rightarrow>
          (case marshalMembers kvs of
             Inl e \<Rightarrow> Inl e
           | Inr js \<Rightarrow> Inr ((k, j) # js)))"

text \<open>
  \<^verbatim>\<open>type\<close>, \<^verbatim>\<open>title\<close> and \<^verbatim>\<open>status\<close> are always written; \<^verbatim>\<open>detail\<close>, \<^verbatim>\<open>instance\<close> and
  \<^verbatim>\<open>extensions\<close> carry \<^verbatim>\<open>omitempty\<close>.
\<close>

definition marshalProblemDetails :: "ProblemDetails \<Rightarrow> error + json" where
  "marshalProblemDetails p =
     (case marshalMembers (Extensions p) of
        Inl e \<Rightarrow> Inl e
      | Inr exts \<Rightarrow>
          Inr (JObject
            ([(''type'', JString (Type p)), (''title'', JString (Title p)),
              (''status'', JNumber (Status p))]
             @ (if Detail p = [] then [] else [(''detail'', JString (Detail p))])
             @ (if Instance p = [] then [] else [(''instance'', JString (Instance p))])
             @ (if Extensions p = [] then [] else [(''extensions'', JObject exts)]))))"

definition marshalMeta :: "Meta \<Rightarrow> json" where
  "marshalMeta m =
     JObject
       ((if Page m = 0 then [] else [(''page'', JNumber (Page m))])
        @ (if PageSize m = 0 then [] else [(''page_size'', JNumber (PageSize m))])
        @ (if TotalPages m = 0 then [] else [(''total_pages'', JNumber (TotalPages m))])
        @ (if TotalItems m = 0 then [] else [(''total_items'', JNumber (TotalItems m))]))"

text \<open>
  \<^verbatim>\<open>Response[T]{Data: data, Meta: meta}\<close> encoded: \<^verbatim>\<open>data\<close> is left out when empty,
  \<^verbatim>\<open>meta\<close> when the pointer is nil.
\<close>

definition marshalResponse :: "'a encoding \<Rightarrow> 'a \<Rightarrow> Meta option \<Rightarrow> error + json" where
  "marshalResponse enc data meta =
     (case (if isEmptyValue enc data then Inr []
            else (case marshal enc data of
                    Inl e \<Rightarrow> Inl e
                  | Inr j \<Rightarrow> Inr [(''data'', j)])) of
        Inl e \<Rightarrow> Inl e
      | Inr d \<Rightarrow>
          Inr (JObject
            (d @ (case meta of None \<Rightarrow> [] | Some m \<Rightarrow> [(''meta'', marshalMeta m)]))))"

subsection \<open>The response writer\<close>

text \<open>
  \<^verbatim>\<open>http.ResponseWriter\<close> is an interface: the model keeps the calls made on it, in order.
  \<open>HeaderSet k v\<close> is \<^verbatim>\<open>w.Header().Set(k, v)\<close>, \<open>WriteHeader c\<close> is \<^verbatim>\<open>w.WriteHeader(c)\<close>
  and \<open>Write d\<close> is one write of the encoded document \<open>d\<close> to the body.
\<close>

datatype writer_call =
    HeaderSet string string
  | WriteHeader int
  | Write json

type_synonym ResponseWriter = "writer_call list"

text \<open>
  \<^verbatim>\<open>writeProblemDetail\<close>: the status sent is \<^verbatim>\<open>problem.Status\<close>, the parameter \<^verbatim>\<open>code\<close> is
  not read. \<^verbatim>\<open>json.NewEncoder(w).Encode\<close> writes nothing when the encoding fails.
\<close>

definition writeProblemDetail :: "ResponseWriter \<Rightarrow> int \<Rightarrow> ProblemDetails \<Rightarrow> ResponseWriter" where
  "writeProblemDetail w code problem =
     (let w1 = w @ [HeaderSet ''Content-Type'' ''application/problem+json; charset=utf-8''];
          w2 = w1 @ [WriteHeader (Status problem)]
      in case marshalProblemDetails problem of
           Inl err \<Rightarrow> w2
         | Inr doc \<Rightarrow> w2 @ [Write doc])"

definition SendResponse ::
  "'a encoding \<Rightarrow> ResponseWriter \<Rightarrow> int \<Rightarrow> 'a \<Rightarrow> ProblemDetails option \<Rightarrow> Meta option
     \<Rightarrow> ResponseWriter" where
  "SendResponse enc w code data problem meta =
     (if code \<ge> 400 \<and> problem \<noteq> None then
        (case problem of
           Some p \<Rightarrow> writeProblemDetail w code p
         | None \<Rightarrow> w)
      else
        (case marshalResponse enc data meta of
           Inl err \<Rightarrow>
             (let internalError =
                    NewProblemDetails StatusInternalServerError ''Internal Server Error'' err
              in writeProblemDetail w StatusInternalServerError internalError)
         | Inr buffer \<Rightarrow>
             w @ [HeaderSet ''Content-Type'' ''application/json; charset=utf-8'',
                  WriteHeader code,
                  Write buffer]))"

text \<open>The calls of one response that carries the problem \<open>p\<close>, encoded as \<open>doc\<close>.\<close>

definition problemResponse :: "ProblemDetails \<Rightarrow> json \<Rightarrow> writer_call list" where
  "problemResponse p doc =
     [HeaderSet ''Content-Type'' ''application/problem+json; charset=utf-8'',
      WriteHeader (Status p),
      Write doc]"

subsection \<open>The problem-type registry of problem_details.go\<close>

text \<open>
  The package variables \<^verbatim>\<open>problemBaseURL\<close> and \<^verbatim>\<open>errorTypePaths\<close>, as one state that
  the configuration calls take and return.
\<close>

definition BlankUrl :: string where
  "BlankUrl = ''about:blank''"

record Registry =
  problemBaseURL :: string
  errorTypePaths :: "string \<rightharpoonup> string"

definition initialRegistry :: Registry where
  "initialRegistry =
     \<lparr>problemBaseURL = BlankUrl,
      errorTypePaths =
        [''validation_error'' \<mapsto> ''/errors/validation-error'',
         ''not_found_error'' \<mapsto> ''/errors/not-found'',
         ''server_error'' \<mapsto> ''/errors/server-error'',
         ''bad_request_error'' \<mapsto> ''/errors/bad-request'']\<rparr>"

definition SetProblemBaseURL :: "string \<Rightarrow> Registry \<Rightarrow> Registry" where
  "SetProblemBaseURL baseURL st = st\<lparr>problemBaseURL := baseURL\<rparr>"

definition SetProblemErrorTypePath :: "string \<Rightarrow> string \<Rightarrow> Registry \<Rightarrow> Registry" where
  "SetProblemErrorTypePath errorType path st =
     st\<lparr>errorTypePaths := (errorTypePaths st)(errorType \<mapsto> path)\<rparr>"

definition SetProblemErrorTypePaths :: "(string \<rightharpoonup> string) \<Rightarrow> Registry \<Rightarrow> Registry" where
  "SetProblemErrorTypePaths paths st =
     st\<lparr>errorTypePaths := errorTypePaths st ++ paths\<rparr>"

definition getProblemBaseURL :: "Registry \<Rightarrow> string" where
  "getProblemBaseURL st =
     (if problemBaseURL st = BlankUrl then [] else problemBaseURL st)"

definition GetProblemTypeURL :: "Registry \<Rightarrow> string \<Rightarrow> string" where
  "GetProblemTypeURL st errorType =
     (case errorTypePaths st errorType of
        Some path \<Rightarrow> getProblemBaseURL st @ path
      | None \<Rightarrow> BlankUrl)"

subsection \<open>The validation adapter\<close>

definition formatValidationMessage :: "FieldError \<Rightarrow> string" where
  "formatValidationMessage vErr =
     FieldError.Field vErr @ '' failed '' @ Tag vErr @ '' validation''"

text \<open>The loop of \<^verbatim>\<open>NewValidationProblemDetails\<close> fills one slot per validation error.\<close>

definition errorDetailsOf :: "FieldError list \<Rightarrow> ValidationErrorDetail list" where
  "errorDetailsOf validationErrors =
     map (\<lambda>vErr. \<lparr>Field = FieldError.Field vErr, Message = formatValidationMessage vErr\<rparr>)
       validationErrors"

definition NewValidationProblemDetails :: "validator_error \<Rightarrow> ProblemDetails" where
  "NewValidationProblemDetails err =
     (case err of
        InvalidValidationError msg \<Rightarrow>
          NewProblemDetails StatusBadRequest ''Invalid Request'' ''Invalid data format or structure''
      | ValidationErrors validationErrors \<Rightarrow>
          \<lparr>Type = ''https://example.com/validation-error'',
           Title = ''Validation Error'',
           Status = StatusBadRequest,
           Detail = ''One or more fields failed validation.'',
           Instance = [],
           Extensions = [(''errors'', AnyErrorDetails (errorDetailsOf validationErrors))]\<rparr>)"

text \<open>
  \<^verbatim>\<open>IsRequestValid\<close>; \<open>validate\<close> is \<^verbatim>\<open>validate.Struct\<close> of the package's validator
  instance, on the request's type.
\<close>

definition IsRequestValid ::
  "('s \<Rightarrow> validator_error option) \<Rightarrow> 's \<Rightarrow> ProblemDetails option" where
  "IsRequestValid validate request =
     (case validate request of
        Some err \<Rightarrow> Some (NewValidationProblemDetails err)
      | None \<Rightarrow> None)"

subsection \<open>The request pipeline of request.go\<close>

text \<open>
  \<^verbatim>\<open>r.Body\<close> is \<^verbatim>\<open>http.NoBody\<close> or a stream, given by its content. The rest of the
  request is the routing context, which only the caller's \<^verbatim>\<open>ParamExtractor\<close> reads.
\<close>

datatype body = NoBody | Stream string

record 'c Request =
  Body :: body
  Route :: 'c

type_synonym 'c ParamExtractor = "'c Request \<Rightarrow> string \<Rightarrow> string"

text \<open>
  The type parameter \<^verbatim>\<open>T\<close> of \<^verbatim>\<open>ParseRequest\<close> is a pointer to a struct \<open>'s\<close>, as in
  every instantiation of the repository; a value of \<^verbatim>\<open>T\<close> is an \<open>'s option\<close> and \<open>None\<close>
  is the nil pointer, the zero value of \<^verbatim>\<open>T\<close>. The record holds what the pipeline calls
  on that type:
  \<^item> \<open>zeroStruct\<close>: the struct that \<^verbatim>\<open>reflect.New\<close> allocates;
  \<^item> \<open>Decode\<close>: \<^verbatim>\<open>json.NewDecoder(r.Body).Decode(&request)\<close> on a nil \<^verbatim>\<open>request\<close>: an
    error, or the pointer it leaves in \<^verbatim>\<open>request\<close> (nil for the document \<^verbatim>\<open>null\<close>);
  \<^item> \<open>SetParam\<close>: the method of \<^verbatim>\<open>RequestParamSetter\<close>, returning an error or the
    struct as the call leaves it;
  \<^item> \<open>validateStruct\<close>: \<^verbatim>\<open>validate.Struct\<close> on the struct.
\<close>

record 's RequestType =
  zeroStruct :: 's
  Decode :: "string \<Rightarrow> error + 's option"
  SetParam :: "string \<Rightarrow> string \<Rightarrow> 's \<Rightarrow> error + 's"
  validateStruct :: "'s \<Rightarrow> validator_error option"

text \<open>
  The calls the pipeline makes on its collaborators, each with what it returned:
  the decoder, the parameter extractor (key, value), \<^verbatim>\<open>SetParam\<close> (key, value, error)
  and the validator.
\<close>

datatype call =
    Decoded "error option"
  | Extracted string string
  | ParamSet string string "error option"
  | Validated "validator_error option"

text \<open>
  What one call of \<^verbatim>\<open>ParseRequest\<close> leaves: the two values it returns (\<open>request\<close>,
  \<open>err\<close>), the response writer after the call, and the calls it made, in order.
\<close>

record 's ParseResult =
  request :: "'s option"
  err :: "error option"
  writer :: ResponseWriter
  calls :: "call list"

definition after :: "call list \<Rightarrow> 's ParseResult \<Rightarrow> 's ParseResult" where
  "after cs res = res\<lparr>calls := cs @ calls res\<rparr>"

definition isRequestNil :: "'s option \<Rightarrow> bool" where
  "isRequestNil i = (i = None)"

text \<open>Lines 73 to 76: a nil \<^verbatim>\<open>request\<close> is replaced by a pointer to a new struct.\<close>

definition ensureInitialized :: "'s RequestType \<Rightarrow> 's option \<Rightarrow> 's" where
  "ensureInitialized T req =
     (if isRequestNil req then zeroStruct T
      else (case req of Some s \<Rightarrow> s | None \<Rightarrow> zeroStruct T))"

text \<open>Lines 94 to 100: validation, and the successful return.\<close>

definition validateAndReturn ::
  "'s RequestType \<Rightarrow> ResponseWriter \<Rightarrow> 's \<Rightarrow> 's ParseResult" where
  "validateAndReturn T w req =
     (case IsRequestValid (validateStruct T) req of
        Some validationErr \<Rightarrow>
          \<lparr>request = None, err = Some ''validation error'',
           writer = SendResponse anyEncoding w StatusBadRequest AnyNil (Some validationErr) None,
           calls = [Validated (validateStruct T req)]\<rparr>
      | None \<Rightarrow>
          \<lparr>request = Some req, err = None, writer = w,
           calls = [Validated (validateStruct T req)]\<rparr>)"

text \<open>Lines 78 to 92: the loop over \<^verbatim>\<open>pathParams\<close>, followed by the rest of the function.\<close>

fun setPathParams ::
  "'s RequestType \<Rightarrow> ResponseWriter \<Rightarrow> 'c Request \<Rightarrow> 'c ParamExtractor \<Rightarrow> string list \<Rightarrow> 's
     \<Rightarrow> 's ParseResult" where
  "setPathParams T w r paramExtractor [] req = validateAndReturn T w req"
| "setPathParams T w r paramExtractor (key # pathParams) req =
     (let value = paramExtractor r key in
      if value = [] then
        (let problem = NewProblemDetails StatusBadRequest ''Missing Parameter''
                         (''Parameter '' @ key @ '' not found in request'')
         in \<lparr>request = None, err = Some (''missing parameter: '' @ key),
             writer = SendResponse anyEncoding w StatusBadRequest AnyNil (Some problem) None,
             calls = [Extracted key value]\<rparr>)
      else
        (case SetParam T key value req of
           Inl e \<Rightarrow>
             (let problem = (NewProblemDetails StatusInternalServerError ''Parameter Error''
                              (''Failed to set field '' @ key))
                            \<lparr>Extensions := [(''error'', AnyString e)]\<rparr>
              in \<lparr>request = None, err = Some e,
                  writer = SendResponse anyEncoding w StatusInternalServerError AnyNil
                             (Some problem) None,
                  calls = [Extracted key value, ParamSet key value (Some e)]\<rparr>)
         | Inr req' \<Rightarrow>
             after [Extracted key value, ParamSet key value None]
               (setPathParams T w r paramExtractor pathParams req')))"

definition ParseRequest ::
  "'s RequestType \<Rightarrow> ResponseWriter \<Rightarrow> 'c Request \<Rightarrow> 'c ParamExtractor \<Rightarrow> string list
     \<Rightarrow> 's ParseResult" where
  "ParseRequest T w r paramExtractor pathParams =
     (case Body r of
        NoBody \<Rightarrow> setPathParams T w r paramExtractor pathParams (ensureInitialized T None)
      | Stream content \<Rightarrow>
          (case Decode T content of
             Inl e \<Rightarrow>
               (let problem = NewProblemDetails StatusBadRequest ''Invalid Request'' e
                in \<lparr>request = None, err = Some e,
                    writer = SendResponse anyEncoding w StatusBadRequest AnyNil (Some problem) None,
                    calls = [Decoded (Some e)]\<rparr>)
           | Inr decoded \<Rightarrow>
               after [Decoded None]
                 (setPathParams T w r paramExtractor pathParams (ensureInitialized T decoded))))"

subsection \<open>The shapes of the two wire formats\<close>

text \<open>
  These two predicates are not code of the package: they state the wire formats in the
  words of the specification. The success envelope is an object with no member but \<^verbatim>\<open>data\<close> and \<^verbatim>\<open>meta\<close>; a problem
  document is an object that has \<^verbatim>\<open>type\<close>, \<^verbatim>\<open>title\<close> and \<^verbatim>\<open>status\<close>, and beside them only
  \<^verbatim>\<open>detail\<close>, \<^verbatim>\<open>instance\<close> and \<^verbatim>\<open>extensions\<close>.
\<close>

fun memberNames :: "json \<Rightarrow> string list option" where
  "memberNames (JObject ms) = Some (map fst ms)"
| "memberNames _ = None"

definition envelopeShape :: "json \<Rightarrow> bool" where
  "envelopeShape doc =
     (case memberNames doc of
        None \<Rightarrow> False
      | Some ns \<Rightarrow> list_all (\<lambda>n. n = ''data'' \<or> n = ''meta'') ns)"

definition problemShape :: "json \<Rightarrow> bool" where
  "problemShape doc =
     (case memberNames doc of
        None \<Rightarrow> False
      | Some ns \<Rightarrow>
          ''type'' \<in> set ns \<and> ''title'' \<in> set ns \<and> ''status'' \<in> set ns \<and>
          list_all (\<lambda>n. n \<in> set [''type'', ''title'', ''status'', ''detail'', ''instance'',
                                   ''extensions'']) ns)"

subsection \<open>The calls of a run that binds path parameters without a failure\<close>

text \<open>
  For each name in order: the extraction of its value, then the successful assignment.
  Before them stands the successful decoding, when the request has a body stream.
\<close>

definition boundCalls :: "'c ParamExtractor \<Rightarrow> 'c Request \<Rightarrow> string list \<Rightarrow> call list" where
  "boundCalls paramExtractor r keys =
     concat (map (\<lambda>key. [Extracted key (paramExtractor r key),
                           ParamSet key (paramExtractor r key) None]) keys)"

definition decodeCalls :: "'c Request \<Rightarrow> call list" where
  "decodeCalls r = (case Body r of NoBody \<Rightarrow> [] | Stream content \<Rightarrow> [Decoded None])"

subsection \<open>The manual construction of a request\<close>

text \<open>
  A request built by hand, in the words of the round-trip property: decode the body into a
  zero value, then apply the parameter assignments (each name with the value the extractor
  gives for it) in order.
\<close>

definition assignments ::
  "'c ParamExtractor \<Rightarrow> 'c Request \<Rightarrow> string list \<Rightarrow> (string \<times> string) list" where
  "assignments paramExtractor r keys = map (\<lambda>key. (key, paramExtractor r key)) keys"

definition decodeManually :: "'s RequestType \<Rightarrow> body \<Rightarrow> error + 's" where
  "decodeManually T b =
     (case b of
        NoBody \<Rightarrow> Inr (zeroStruct T)
      | Stream content \<Rightarrow>
          (case Decode T content of
             Inl e \<Rightarrow> Inl e
           | Inr None \<Rightarrow> Inr (zeroStruct T)
           | Inr (Some s) \<Rightarrow> Inr s))"

fun assignManually :: "'s RequestType \<Rightarrow> (string \<times> string) list \<Rightarrow> 's \<Rightarrow> error + 's" where
  "assignManually T [] s = Inr s"
| "assignManually T ((key, value) # kvs) s =
     (case SetParam T key value s of
        Inl e \<Rightarrow> Inl e
      | Inr s' \<Rightarrow> assignManually T kvs s')"

subsection \<open>The two ways a run of the pipeline ends\<close>

abbreviation succeeded :: "ResponseWriter \<Rightarrow> 's ParseResult \<Rightarrow> bool" where
  "succeeded w res \<equiv> request res \<noteq> None \<and> err res = None \<and> writer res = w"

abbreviation failedWith :: "ResponseWriter \<Rightarrow> 's ParseResult \<Rightarrow> bool" where
  "failedWith w res \<equiv>
     request res = None \<and> err res \<noteq> None \<and>
     (\<exists>p doc. 400 \<le> Status p \<and> marshalProblemDetails p = Inr doc \<and>
        writer res = SendResponse anyEncoding w (Status p) AnyNil (Some p) None \<and>
        writer res = w @ problemResponse p doc)"

subsection \<open>The request type of request\_test.go\<close>

text \<open>
  \<^verbatim>\<open>TestRequest\<close> with its \<^verbatim>\<open>SetParam\<close>, its validation tags (\<^verbatim>\<open>ID\<close>: required, gt=0;
  \<^verbatim>\<open>Name\<close>: required) and \<^verbatim>\<open>MyParamExtractor\<close>, which reads the third segment of the
  URL path for the key \<^verbatim>\<open>ID\<close>. The examples below run the pipeline on it.
\<close>

record TestRequest =
  ID :: int
  Name :: string

text \<open>\<^verbatim>\<open>strings.ToLower\<close> on ASCII letters; the field names of the examples are ASCII.\<close>

definition toLower :: "char \<Rightarrow> char" where
  "toLower c =
     (case map_of (zip ''ABCDEFGHIJKLMNOPQRSTUVWXYZ'' ''abcdefghijklmnopqrstuvwxyz'') c of
        Some l \<Rightarrow> l
      | None \<Rightarrow> c)"

definition digit :: "char \<Rightarrow> int option" where
  "digit c = map_of (zip ''0123456789'' [0, 1, 2, 3, 4, 5, 6, 7, 8, 9]) c"

fun digits :: "int \<Rightarrow> string \<Rightarrow> int option" where
  "digits n [] = Some n"
| "digits n (c # cs) =
     (case digit c of
        None \<Rightarrow> None
      | Some d \<Rightarrow> digits (10 * n + d) cs)"

text \<open>
  \<^verbatim>\<open>strconv.Atoi\<close> on decimal numerals with an optional sign. The range check of Go's
  \<^verbatim>\<open>int\<close> is left out: the examples use small numbers only.
\<close>

definition Atoi :: "string \<Rightarrow> int option" where
  "Atoi s =
     (case s of
        [] \<Rightarrow> None
      | c # cs \<Rightarrow>
          if c = CHR ''-'' then (if cs = [] then None else map_option uminus (digits 0 cs))
          else if c = CHR ''+'' then (if cs = [] then None else digits 0 cs)
          else digits 0 s)"

definition TestRequest_SetParam :: "string \<Rightarrow> string \<Rightarrow> TestRequest \<Rightarrow> error + TestRequest" where
  "TestRequest_SetParam fieldName value r =
     (if map toLower fieldName = ''id'' then
        (case Atoi value of
           None \<Rightarrow> Inl ''invalid id''
         | Some n \<Rightarrow> Inr (r\<lparr>ID := n\<rparr>))
      else Inr r)"

definition TestRequest_validate :: "TestRequest \<Rightarrow> validator_error option" where
  "TestRequest_validate r =
     (let errs =
            (if ID r = 0 then [FieldError ''ID'' ''required'']
             else if ID r \<le> 0 then [FieldError ''ID'' ''gt'']
             else [])
            @ (if Name r = [] then [FieldError ''Name'' ''required''] else [])
      in if errs = [] then None else Some (ValidationErrors errs))"

definition quoted :: "string \<Rightarrow> string" where
  "quoted s = CHR 0x22 # s @ [CHR 0x22]"


text \<open>
  A table for the examples, not a model of the decoder. It answers for three bodies:
  \<open>testDocument\<close>, which is what the test marshals from \<^verbatim>\<open>TestRequest{Name: "Test"}\<close>,
  the empty object and \<^verbatim>\<open>null\<close>. Any other content is answered with the error the decoder
  gives for the malformed body of the tests, and the examples use it on that body only.
\<close>

definition testDocument :: string where
  "testDocument =
     ''{'' @ quoted ''id'' @ '':0,'' @ quoted ''name'' @ '':'' @ quoted ''Test'' @ ''}''"

definition TestRequest_Decode :: "string \<Rightarrow> error + TestRequest option" where
  "TestRequest_Decode content =
     (if content = testDocument
      then Inr (Some \<lparr>ID = 0, Name = ''Test''\<rparr>)
      else if content = ''{}'' then Inr (Some \<lparr>ID = 0, Name = []\<rparr>)
      else if content = ''null'' then Inr None
      else Inl ''invalid character 'i' looking for beginning of object key string'')"

definition TestRequestType :: "TestRequest RequestType" where
  "TestRequestType =
     \<lparr>zeroStruct = \<lparr>ID = 0, Name = []\<rparr>,
      Decode = TestRequest_Decode,
      SetParam = TestRequest_SetParam,
      validateStruct = TestRequest_validate\<rparr>"

primrec Split :: "char \<Rightarrow> string \<Rightarrow> string list" where
  "Split sep [] = [[]]"
| "Split sep (c # cs) =
     (if c = sep then [] # Split sep cs
      else (case Split sep cs of
              [] \<Rightarrow> [[c]]
            | seg # segs \<Rightarrow> (c # seg) # segs))"

definition MyParamExtractor :: "string ParamExtractor" where
  "MyParamExtractor r key =
     (let pathSegments = Split CHR ''/'' (Route r)
      in if length pathSegments > 2 \<and> key = ''ID'' then pathSegments ! 2 else [])"

text \<open>
  The extractor of the doc comment of \<^verbatim>\<open>ParamExtractor\<close>, \<^verbatim>\<open>r.URL.Query().Get(key)\<close>, on a
  routing context that lists the query parameters.
\<close>

definition QueryParamExtractor :: "(string \<times> string) list ParamExtractor" where
  "QueryParamExtractor r key = (case map_of (Route r) key of Some v \<Rightarrow> v | None \<Rightarrow> [])"

section \<open>Basic facts\<close>

lemma writeProblemDetail_calls:
  "writeProblemDetail w code p =
     w @ [HeaderSet ''Content-Type'' ''application/problem+json; charset=utf-8'',
          WriteHeader (Status p)]
       @ (case marshalProblemDetails p of Inl e \<Rightarrow> [] | Inr doc \<Rightarrow> [Write doc])"
  by (simp add: writeProblemDetail_def Let_def split: sum.splits)

lemma SendResponse_problem:
  "400 \<le> code \<Longrightarrow> SendResponse enc w code data (Some p) meta = writeProblemDetail w code p"
  by (simp add: SendResponse_def)

lemma writeProblemDetail_ok:
  "marshalProblemDetails p = Inr doc \<Longrightarrow> writeProblemDetail w code p = w @ problemResponse p doc"
  by (simp add: writeProblemDetail_def problemResponse_def Let_def)

lemma marshal_NewProblemDetails:
  "marshalProblemDetails (NewProblemDetails status title detail) =
     Inr (JObject ([(''type'', JString ''about:blank''), (''title'', JString title),
                    (''status'', JNumber status)]
                   @ (if detail = [] then [] else [(''detail'', JString detail)])))"
  by (simp add: marshalProblemDetails_def NewProblemDetails_def)

lemma marshal_paramError:
  "marshalProblemDetails ((NewProblemDetails status title detail)\<lparr>Extensions := [(''error'', AnyString e)]\<rparr>) =
     Inr (JObject ([(''type'', JString ''about:blank''), (''title'', JString title),
                    (''status'', JNumber status)]
                   @ (if detail = [] then [] else [(''detail'', JString detail)])
                   @ [(''extensions'', JObject [(''error'', JString e)])]))"
  by (simp add: marshalProblemDetails_def NewProblemDetails_def)

lemma marshal_validationProblem:
  "marshalProblemDetails (NewValidationProblemDetails (ValidationErrors ves)) =
     Inr (JObject [(''type'', JString ''https://example.com/validation-error''),
                   (''title'', JString ''Validation Error''),
                   (''status'', JNumber 400),
                   (''detail'', JString ''One or more fields failed validation.''),
                   (''extensions'',
                      JObject [(''errors'', JArray (map marshalErrorDetail (errorDetailsOf ves)))])])"
  by (simp add: marshalProblemDetails_def NewValidationProblemDetails_def)

lemma calls_after [simp]: "calls (after cs res) = cs @ calls res"
  and request_after [simp]: "request (after cs res) = request res"
  and err_after [simp]: "err (after cs res) = err res"
  and writer_after [simp]: "writer (after cs res) = writer res"
  by (simp_all add: after_def)

lemma after_append: "after cs (after ds res) = after (cs @ ds) res"
  by (simp add: after_def)

lemma after_Nil [simp]: "after [] res = res"
  by (simp add: after_def)

lemma boundCalls_Cons:
  "boundCalls ext r (k # ks) = [Extracted k (ext r k), ParamSet k (ext r k) None] @ boundCalls ext r ks"
  by (simp add: boundCalls_def)

lemma boundCalls_Nil [simp]: "boundCalls ext r [] = []"
  by (simp add: boundCalls_def)

lemma calls_validateAndReturn: "calls (validateAndReturn T w s) = [Validated (validateStruct T s)]"
  by (simp add: validateAndReturn_def split: option.splits)

lemma setPathParams_bound:
  "\<forall>k \<in> set names. ext r k \<noteq> [] \<Longrightarrow>
   assignManually T (assignments ext r names) s = Inr t \<Longrightarrow>
   setPathParams T w r ext names s = after (boundCalls ext r names) (validateAndReturn T w t)"
proof (induction names arbitrary: s)
  case Nil
  then show ?case by (simp add: assignments_def)
next
  case (Cons k ks)
  from Cons.prems(2) obtain s' where
    s': "SetParam T k (ext r k) s = Inr s'" "assignManually T (assignments ext r ks) s' = Inr t"
    by (auto simp add: assignments_def split: sum.splits)
  from Cons.prems(1) have "\<forall>k \<in> set ks. ext r k \<noteq> []" "ext r k \<noteq> []" by simp_all
  with Cons.IH[OF this(1) s'(2)] s'(1) show ?case
    by (simp add: Let_def after_append boundCalls_Cons)
qed

lemma marshal_validation_any:
  "\<exists>doc. marshalProblemDetails (NewValidationProblemDetails e) = Inr doc"
proof (cases e)
  case (ValidationErrors ves)
  then show ?thesis by (simp add: marshal_validationProblem)
next
  case (InvalidValidationError msg)
  then show ?thesis by (simp add: NewValidationProblemDetails_def marshal_NewProblemDetails)
qed

lemma Status_validation [simp]: "Status (NewValidationProblemDetails e) = 400"
  by (cases e) (simp_all add: NewValidationProblemDetails_def NewProblemDetails_def)

lemma failedWithI:
  "request res = None \<Longrightarrow> err res = Some e \<Longrightarrow> 400 \<le> Status p \<Longrightarrow> marshalProblemDetails p = Inr doc \<Longrightarrow>
   writer res = SendResponse anyEncoding w (Status p) AnyNil (Some p) None \<Longrightarrow> failedWith w res"
  by (metis SendResponse_problem writeProblemDetail_ok option.distinct(1))

lemma validateAndReturn_exit:
  "succeeded w (validateAndReturn T w s) \<or> failedWith w (validateAndReturn T w s)"
proof (cases "validateStruct T s")
  case None
  then show ?thesis by (simp add: validateAndReturn_def IsRequestValid_def)
next
  case (Some e)
  obtain doc where "marshalProblemDetails (NewValidationProblemDetails e) = Inr doc"
    using marshal_validation_any by blast
  then have "failedWith w (validateAndReturn T w s)"
    using Some
    by (intro failedWithI[where p = "NewValidationProblemDetails e" and doc = doc])
       (simp_all add: validateAndReturn_def IsRequestValid_def)
  then show ?thesis ..
qed

lemma setPathParams_exit:
  "succeeded w (setPathParams T w r ext names s) \<or> failedWith w (setPathParams T w r ext names s)"
proof (induction names arbitrary: s)
  case Nil
  show ?case by (simp only: setPathParams.simps) (rule validateAndReturn_exit)
next
  case (Cons k ks)
  show ?case
  proof (cases "ext r k = []")
    case True
    have "failedWith w (setPathParams T w r ext (k # ks) s)"
      using True
      by (intro failedWithI[where p = "NewProblemDetails 400 ''Missing Parameter''
                (''Parameter '' @ k @ '' not found in request'')"])
         (simp_all add: Let_def marshal_NewProblemDetails, simp_all add: NewProblemDetails_def)
    then show ?thesis ..
  next
    case False
    show ?thesis
    proof (cases "SetParam T k (ext r k) s")
      case (Inl e)
      have "failedWith w (setPathParams T w r ext (k # ks) s)"
        using False Inl
        by (intro failedWithI[where p = "(NewProblemDetails 500 ''Parameter Error'' (''Failed to set field '' @ k))
                            \<lparr>Extensions := [(''error'', AnyString e)]\<rparr>"])
           (simp_all add: Let_def marshal_paramError, simp_all add: NewProblemDetails_def)
      then show ?thesis ..
    next
      case (Inr s')
      with False Cons.IH[of s'] show ?thesis by (simp add: Let_def)
    qed
  qed
qed

lemma ParseRequest_exit:
  "succeeded w (ParseRequest T w r ext names) \<or> failedWith w (ParseRequest T w r ext names)"
proof (cases "Body r")
  case NoBody
  then show ?thesis by (simp only: ParseRequest_def body.case) (rule setPathParams_exit)
next
  case (Stream content)
  show ?thesis
  proof (cases "Decode T content")
    case (Inl e)
    have "failedWith w (ParseRequest T w r ext names)"
      using Stream Inl
      by (intro failedWithI[where p = "NewProblemDetails 400 ''Invalid Request'' e"])
         (simp_all add: ParseRequest_def Let_def marshal_NewProblemDetails, simp_all add: NewProblemDetails_def)
    then show ?thesis ..
  next
    case (Inr d)
    with Stream
    have "ParseRequest T w r ext names =
            after [Decoded None] (setPathParams T w r ext names (ensureInitialized T d))"
      by (simp add: ParseRequest_def)
    with setPathParams_exit[where w = w and T = T and r = r and ext = ext and names = names
           and s = "ensureInitialized T d"]
    show ?thesis by simp
  qed
qed

lemma marshalProblemDetails_shape:
  assumes "marshalProblemDetails p = Inr doc"
  shows "problemShape doc" and "\<not> envelopeShape doc"
  using assms
  by (auto simp add: marshalProblemDetails_def problemShape_def envelopeShape_def
      split: sum.splits if_splits)

lemma marshalResponse_members:
  assumes "marshalResponse enc data meta = Inr doc"
  shows "\<exists>d. doc = JObject (d @ (case meta of None \<Rightarrow> [] | Some m \<Rightarrow> [(''meta'', marshalMeta m)])) \<and>
             (if isEmptyValue enc data then d = []
              else \<exists>j. marshal enc data = Inr j \<and> d = [(''data'', j)])"
  using assms
  by (auto simp add: marshalResponse_def split: sum.splits if_splits)

lemma marshalResponse_shape:
  assumes "marshalResponse enc data meta = Inr doc"
  shows "envelopeShape doc" and "\<not> problemShape doc"
  using assms
  by (auto simp add: marshalResponse_def problemShape_def envelopeShape_def
      split: sum.splits if_splits option.splits)

lemma ParseRequest_decoded:
  assumes "decodeManually T (Body r) = Inr s0"
  shows "ParseRequest T w r ext names = after (decodeCalls r) (setPathParams T w r ext names s0)"
proof (cases "Body r")
  case NoBody
  with assms show ?thesis
    by (simp add: ParseRequest_def decodeManually_def decodeCalls_def ensureInitialized_def
        isRequestNil_def)
next
  case (Stream content)
  with assms show ?thesis
    by (auto simp add: ParseRequest_def decodeManually_def decodeCalls_def ensureInitialized_def
        isRequestNil_def split: sum.splits option.splits)
qed

lemma missing_response:
  "SendResponse anyEncoding w 400 AnyNil
     (Some (NewProblemDetails 400 ''Missing Parameter''
              (''Parameter '' @ key @ '' not found in request''))) None =
   w @ problemResponse
         \<lparr>Type = ''about:blank'', Title = ''Missing Parameter'', Status = 400,
          Detail = ''Parameter '' @ key @ '' not found in request'', Instance = [],
          Extensions = []\<rparr>
         (JObject [(''type'', JString ''about:blank''),
                   (''title'', JString ''Missing Parameter''),
                   (''status'', JNumber 400),
                   (''detail'', JString (''Parameter '' @ key @ '' not found in request''))])"
proof -
  let ?p = "NewProblemDetails 400 ''Missing Parameter'' (''Parameter '' @ key @ '' not found in request'')"
  have "SendResponse anyEncoding w 400 AnyNil (Some ?p) None = writeProblemDetail w 400 ?p"
    by (rule SendResponse_problem) simp
  also have "\<dots> = w @ problemResponse ?p
         (JObject [(''type'', JString ''about:blank''),
                   (''title'', JString ''Missing Parameter''),
                   (''status'', JNumber 400),
                   (''detail'', JString (''Parameter '' @ key @ '' not found in request''))])"
    by (rule writeProblemDetail_ok) (simp add: marshal_NewProblemDetails)
  finally show ?thesis by (simp add: NewProblemDetails_def)
qed

lemma paramError_response:
  "SendResponse anyEncoding w 500 AnyNil
     (Some ((NewProblemDetails 500 ''Parameter Error'' (''Failed to set field '' @ key))
              \<lparr>Extensions := [(''error'', AnyString e)]\<rparr>)) None =
   w @ problemResponse
         \<lparr>Type = ''about:blank'', Title = ''Parameter Error'', Status = 500,
          Detail = ''Failed to set field '' @ key, Instance = [],
          Extensions = [(''error'', AnyString e)]\<rparr>
         (JObject [(''type'', JString ''about:blank''),
                   (''title'', JString ''Parameter Error''),
                   (''status'', JNumber 500),
                   (''detail'', JString (''Failed to set field '' @ key)),
                   (''extensions'', JObject [(''error'', JString e)])])"
proof -
  let ?p = "(NewProblemDetails 500 ''Parameter Error'' (''Failed to set field '' @ key))
              \<lparr>Extensions := [(''error'', AnyString e)]\<rparr>"
  have "SendResponse anyEncoding w 500 AnyNil (Some ?p) None = writeProblemDetail w 500 ?p"
    by (rule SendResponse_problem) simp
  also have "\<dots> = w @ problemResponse ?p
         (JObject [(''type'', JString ''about:blank''),
                   (''title'', JString ''Parameter Error''),
                   (''status'', JNumber 500),
                   (''detail'', JString (''Failed to set field '' @ key)),
                   (''extensions'', JObject [(''error'', JString e)])])"
    by (rule writeProblemDetail_ok) (simp add: marshal_paramError)
  finally show ?thesis by (simp add: NewProblemDetails_def)
qed


lemma setPathParams_prefix:
  "\<forall>k \<in> set pre. ext r k \<noteq> [] \<Longrightarrow>
   assignManually T (assignments ext r pre) s = Inr t \<Longrightarrow>
   setPathParams T w r ext (pre @ rest) s =
     after (boundCalls ext r pre) (setPathParams T w r ext rest t)"
proof (induction pre arbitrary: s)
  case Nil
  then show ?case by (simp add: assignments_def)
next
  case (Cons k ks)
  from Cons.prems(2) obtain s' where
    s': "SetParam T k (ext r k) s = Inr s'" "assignManually T (assignments ext r ks) s' = Inr t"
    by (auto simp add: assignments_def split: sum.splits)
  from Cons.prems(1) have "\<forall>k \<in> set ks. ext r k \<noteq> []" "ext r k \<noteq> []" by simp_all
  with Cons.IH[OF this(1) s'(2)] s'(1) show ?case
    by (simp add: Let_def after_append boundCalls_Cons)
qed

lemma ParseRequest_prefix:
  assumes "decodeManually T (Body r) = Inr s0"
    and "\<forall>k \<in> set pre. ext r k \<noteq> []"
    and "assignManually T (assignments ext r pre) s0 = Inr t"
  shows "ParseRequest T w r ext (pre @ rest) =
           after (decodeCalls r @ boundCalls ext r pre) (setPathParams T w r ext rest t)"
  using ParseRequest_decoded[OF assms(1), of w ext "pre @ rest"]
    setPathParams_prefix[OF assms(2,3), of w rest]
  by (simp add: after_append)

lemma ParamSet_notin_boundCalls:
  "key \<notin> set pre \<Longrightarrow> ParamSet key value e \<notin> set (boundCalls ext r pre)"
  by (auto simp add: boundCalls_def)

lemma ParamSet_notin_decodeCalls: "ParamSet key value e \<notin> set (decodeCalls r)"
  by (simp add: decodeCalls_def split: body.splits)

lemma Validated_notin_boundCalls: "Validated v \<notin> set (boundCalls ext r pre)"
  by (auto simp add: boundCalls_def)

lemma Validated_notin_decodeCalls: "Validated v \<notin> set (decodeCalls r)"
  by (simp add: decodeCalls_def split: body.splits)

subsection \<open>Runs of the pipeline on the request type of the tests\<close>

lemmas TestRequest_defs =
  TestRequestType_def TestRequest_Decode_def TestRequest_SetParam_def TestRequest_validate_def
  MyParamExtractor_def Atoi_def digit_def toLower_def

lemma Split_test_123: "Split CHR ''/'' ''/test/123'' = ['''', ''test'', ''123'']"
  by simp

lemma Split_test_abc: "Split CHR ''/'' ''/test/abc'' = ['''', ''test'', ''abc'']"
  by simp

lemma run_success:
  "ParseRequest TestRequestType []
     \<lparr>Body = Stream testDocument,
      Route = ''/test/123''\<rparr>
     MyParamExtractor [''ID''] =
   \<lparr>request = Some \<lparr>ID = 123, Name = ''Test''\<rparr>, err = None, writer = [],
    calls = [Decoded None, Extracted ''ID'' ''123'', ParamSet ''ID'' ''123'' None, Validated None]\<rparr>"
  by (simp add: ParseRequest_def ensureInitialized_def isRequestNil_def validateAndReturn_def
      IsRequestValid_def after_def TestRequest_defs Split_test_123 Let_def)

lemma run_missing_parameter:
  "ParseRequest TestRequestType [] \<lparr>Body = NoBody, Route = ''/test/123''\<rparr> MyParamExtractor
     [''ID'', ''name''] =
   \<lparr>request = None, err = Some ''missing parameter: name'',
    writer =
      [HeaderSet ''Content-Type'' ''application/problem+json; charset=utf-8'',
       WriteHeader 400,
       Write (JObject
         [(''type'', JString ''about:blank''),
          (''title'', JString ''Missing Parameter''),
          (''status'', JNumber 400),
          (''detail'', JString ''Parameter name not found in request'')])],
    calls = [Extracted ''ID'' ''123'', ParamSet ''ID'' ''123'' None, Extracted ''name'' []]\<rparr>"
  by (simp add: ParseRequest_def ensureInitialized_def isRequestNil_def
      after_def TestRequest_defs Split_test_123 Let_def
      SendResponse_def writeProblemDetail_def marshalProblemDetails_def NewProblemDetails_def)

lemma run_invalid_id:
  "ParseRequest TestRequestType [] \<lparr>Body = NoBody, Route = ''/test/abc''\<rparr> MyParamExtractor
     [''ID'', ''name''] =
   \<lparr>request = None, err = Some ''invalid id'',
    writer =
      [HeaderSet ''Content-Type'' ''application/problem+json; charset=utf-8'',
       WriteHeader 500,
       Write (JObject
         [(''type'', JString ''about:blank''),
          (''title'', JString ''Parameter Error''),
          (''status'', JNumber 500),
          (''detail'', JString ''Failed to set field ID''),
          (''extensions'', JObject [(''error'', JString ''invalid id'')])])],
    calls = [Extracted ''ID'' ''abc'', ParamSet ''ID'' ''abc'' (Some ''invalid id'')]\<rparr>"
  by (simp add: ParseRequest_def ensureInitialized_def isRequestNil_def
      after_def TestRequest_defs Split_test_abc Let_def
      SendResponse_def writeProblemDetail_def marshalProblemDetails_def NewProblemDetails_def)

section \<open>The response envelope writer\<close>

text \<open>
  Claim C1, as the code has it. For every call \<^verbatim>\<open>SendResponse(w, code, data, problem, meta)\<close>:
  \<^item> when \<open>code \<ge> 400\<close> and the problem is not nil, the content type set is
    \<^verbatim>\<open>application/problem+json\<close> (with \<^verbatim>\<open>charset=utf-8\<close>), the status sent is the problem's
    own \<open>Status\<close> (the parameter \<open>code\<close> is not used), and the body is the encoding of the
    problem when it encodes (nothing is written to the body when it does not); such a body
    has the problem shape and not the envelope shape;
  \<^item> otherwise, when the envelope of \<open>data\<close> and \<open>meta\<close> encodes, the content type is
    \<^verbatim>\<open>application/json\<close> (with \<^verbatim>\<open>charset=utf-8\<close>), the status sent is \<open>code\<close>, and the body
    is the envelope, with \<^verbatim>\<open>data\<close> left out when empty and \<^verbatim>\<open>meta\<close> when nil; it has the
    envelope shape and not the problem shape;
  \<^item> otherwise, when the envelope does not encode, the writer falls back to a problem with
    status 500 and title \<^verbatim>\<open>Internal Server Error\<close> whose detail is the encoder's error.
\<close>

theorem SendResponse_writes:
  "(400 \<le> code \<and> problem = Some p \<longrightarrow>
      SendResponse enc w code data problem meta =
        w @ [HeaderSet ''Content-Type'' ''application/problem+json; charset=utf-8'',
             WriteHeader (Status p)]
          @ (case marshalProblemDetails p of Inl e \<Rightarrow> [] | Inr doc \<Rightarrow> [Write doc]) \<and>
      (\<forall>doc. marshalProblemDetails p = Inr doc \<longrightarrow> problemShape doc \<and> \<not> envelopeShape doc)) \<and>
   (\<not> (400 \<le> code \<and> problem \<noteq> None) \<longrightarrow>
      (\<forall>doc. marshalResponse enc data meta = Inr doc \<longrightarrow>
         SendResponse enc w code data problem meta =
           w @ [HeaderSet ''Content-Type'' ''application/json; charset=utf-8'',
                WriteHeader code, Write doc] \<and>
         (\<exists>d. doc = JObject (d @ (case meta of None \<Rightarrow> []
                                    | Some m \<Rightarrow> [(''meta'', marshalMeta m)])) \<and>
              (if isEmptyValue enc data then d = []
               else \<exists>j. marshal enc data = Inr j \<and> d = [(''data'', j)])) \<and>
         envelopeShape doc \<and> \<not> problemShape doc) \<and>
      (\<forall>e. marshalResponse enc data meta = Inl e \<longrightarrow>
         SendResponse enc w code data problem meta =
           w @ [HeaderSet ''Content-Type'' ''application/problem+json; charset=utf-8'',
                WriteHeader 500,
                Write (JObject ([(''type'', JString ''about:blank''),
                                 (''title'', JString ''Internal Server Error''),
                                 (''status'', JNumber 500)]
                                @ (if e = [] then [] else [(''detail'', JString e)])))]))"
proof (intro conjI impI allI)
  assume a: "400 \<le> code \<and> problem = Some p"
  then show "SendResponse enc w code data problem meta =
        w @ [HeaderSet ''Content-Type'' ''application/problem+json; charset=utf-8'',
             WriteHeader (Status p)]
          @ (case marshalProblemDetails p of Inl e \<Rightarrow> [] | Inr doc \<Rightarrow> [Write doc])"
    by (simp add: SendResponse_problem writeProblemDetail_calls)
next
  fix doc assume "marshalProblemDetails p = Inr doc"
  then show "problemShape doc" by (rule marshalProblemDetails_shape)
next
  fix doc assume "marshalProblemDetails p = Inr doc"
  then show "\<not> envelopeShape doc" by (rule marshalProblemDetails_shape)
next
  fix doc
  assume "\<not> (400 \<le> code \<and> problem \<noteq> None)" and "marshalResponse enc data meta = Inr doc"
  then show "SendResponse enc w code data problem meta =
           w @ [HeaderSet ''Content-Type'' ''application/json; charset=utf-8'',
                WriteHeader code, Write doc]"
    by (simp add: SendResponse_def)
next
  fix doc
  assume "marshalResponse enc data meta = Inr doc"
  then show "\<exists>d. doc = JObject (d @ (case meta of None \<Rightarrow> []
                                    | Some m \<Rightarrow> [(''meta'', marshalMeta m)])) \<and>
              (if isEmptyValue enc data then d = []
               else \<exists>j. marshal enc data = Inr j \<and> d = [(''data'', j)])"
    by (rule marshalResponse_members)
next
  fix doc assume "marshalResponse enc data meta = Inr doc"
  then show "envelopeShape doc" by (rule marshalResponse_shape)
next
  fix doc assume "marshalResponse enc data meta = Inr doc"
  then show "\<not> problemShape doc" by (rule marshalResponse_shape)
next
  fix e
  assume n: "\<not> (400 \<le> code \<and> problem \<noteq> None)" and m: "marshalResponse enc data meta = Inl e"
  let ?p = "NewProblemDetails 500 ''Internal Server Error'' e"
  from n m have "SendResponse enc w code data problem meta = writeProblemDetail w 500 ?p"
    by (cases problem) (auto simp add: SendResponse_def Let_def)
  also have "\<dots> = w @ problemResponse ?p
      (JObject ([(''type'', JString ''about:blank''), (''title'', JString ''Internal Server Error''),
                 (''status'', JNumber 500)] @ (if e = [] then [] else [(''detail'', JString e)])))"
    by (rule writeProblemDetail_ok) (rule marshal_NewProblemDetails)
  finally show "SendResponse enc w code data problem meta =
           w @ [HeaderSet ''Content-Type'' ''application/problem+json; charset=utf-8'',
                WriteHeader 500,
                Write (JObject ([(''type'', JString ''about:blank''),
                                 (''title'', JString ''Internal Server Error''),
                                 (''status'', JNumber 500)]
                                @ (if e = [] then [] else [(''detail'', JString e)])))]"
    by (simp add: problemResponse_def NewProblemDetails_def)
qed

text \<open>
  The three branches on inputs of response\_test.go: a 404 with a problem, a 200 with data
  and pagination metadata, and a 200 whose data the encoder rejects.
\<close>

theorem SendResponse_writes_witness:
  "SendResponse anyEncoding [] 404 AnyNil
     (Some \<lparr>Type = ''about:blank'', Title = ''Not Found'', Status = 404,
            Detail = ''The requested resource was not found'', Instance = [], Extensions = []\<rparr>)
     None =
     [HeaderSet ''Content-Type'' ''application/problem+json; charset=utf-8'',
      WriteHeader 404,
      Write (JObject [(''type'', JString ''about:blank''), (''title'', JString ''Not Found''),
                      (''status'', JNumber 404),
                      (''detail'', JString ''The requested resource was not found'')])] \<and>
   SendResponse anyEncoding [] 200 (AnyOther (Inr (JObject [(''key'', JString ''value'')]))) None
     (Some \<lparr>Page = 1, PageSize = 10, TotalPages = 100, TotalItems = 0\<rparr>) =
     [HeaderSet ''Content-Type'' ''application/json; charset=utf-8'',
      WriteHeader 200,
      Write (JObject [(''data'', JObject [(''key'', JString ''value'')]),
                      (''meta'', JObject [(''page'', JNumber 1), (''page_size'', JNumber 10),
                                          (''total_pages'', JNumber 100)])])] \<and>
   SendResponse anyEncoding [] 200 (AnyOther (Inl ''json: unsupported type: chan int'')) None None =
     [HeaderSet ''Content-Type'' ''application/problem+json; charset=utf-8'',
      WriteHeader 500,
      Write (JObject [(''type'', JString ''about:blank''),
                      (''title'', JString ''Internal Server Error''),
                      (''status'', JNumber 500),
                      (''detail'', JString ''json: unsupported type: chan int'')])]"
proof -
  let ?p = "\<lparr>Type = ''about:blank'', Title = ''Not Found'', Status = 404,
            Detail = ''The requested resource was not found'', Instance = [], Extensions = []\<rparr>"
  let ?data = "AnyOther (Inr (JObject [(''key'', JString ''value'')]))"
  let ?meta = "Some \<lparr>Page = 1, PageSize = 10, TotalPages = 100, TotalItems = 0\<rparr>"
  let ?bad = "AnyOther (Inl ''json: unsupported type: chan int'')"
  have p: "marshalProblemDetails ?p =
      Inr (JObject [(''type'', JString ''about:blank''), (''title'', JString ''Not Found''),
                      (''status'', JNumber 404),
                      (''detail'', JString ''The requested resource was not found'')])"
    by (simp add: marshalProblemDetails_def)
  have ok: "marshalResponse anyEncoding ?data ?meta =
      Inr (JObject [(''data'', JObject [(''key'', JString ''value'')]),
                      (''meta'', JObject [(''page'', JNumber 1), (''page_size'', JNumber 10),
                                          (''total_pages'', JNumber 100)])])"
    by (simp add: marshalResponse_def anyEncoding_def marshalMeta_def)
  have bad: "marshalResponse anyEncoding ?bad None = Inl ''json: unsupported type: chan int''"
    by (simp add: marshalResponse_def anyEncoding_def)
  show ?thesis
    using SendResponse_writes[of 404 "Some ?p" ?p anyEncoding "[]" AnyNil None]
      SendResponse_writes[of 200 None _ anyEncoding "[]" ?data ?meta]
      SendResponse_writes[of 200 None _ anyEncoding "[]" ?bad None]
      p ok bad
    by simp
qed

text \<open>
  The claim as stated, without the third branch, fails: with status 200, no problem and a
  payload that the encoder rejects, the status sent is 500, the content type is that of a
  problem and the body has the problem shape.
\<close>

theorem SendResponse_success_branch_counterexample:
  "\<not> (400 \<le> (200::int) \<and> (None :: ProblemDetails option) \<noteq> None) \<and>
   SendResponse anyEncoding [] 200 (AnyOther (Inl ''json: unsupported type: chan int'')) None None =
     [HeaderSet ''Content-Type'' ''application/problem+json; charset=utf-8'',
      WriteHeader 500,
      Write (JObject [(''type'', JString ''about:blank''),
                      (''title'', JString ''Internal Server Error''),
                      (''status'', JNumber 500),
                      (''detail'', JString ''json: unsupported type: chan int'')])] \<and>
   problemShape (JObject [(''type'', JString ''about:blank''),
                      (''title'', JString ''Internal Server Error''),
                      (''status'', JNumber 500),
                      (''detail'', JString ''json: unsupported type: chan int'')]) \<and>
   \<not> envelopeShape (JObject [(''type'', JString ''about:blank''),
                      (''title'', JString ''Internal Server Error''),
                      (''status'', JNumber 500),
                      (''detail'', JString ''json: unsupported type: chan int'')])"
  by (simp add: SendResponse_def marshalResponse_def anyEncoding_def writeProblemDetail_def
      marshalProblemDetails_def NewProblemDetails_def problemShape_def envelopeShape_def)

section \<open>The request pipeline\<close>

text \<open>
  Claim C2. \<^verbatim>\<open>ParseRequest\<close> takes the path parameter names in order. When the body
  decodes (or there is none), the names before \<open>key\<close> have non-empty values whose
  assignments succeed, and the parameter extractor returns the empty string for \<open>key\<close>,
  then: the names before \<open>key\<close> are each extracted and assigned, in order, and the
  extraction of \<open>key\<close> is the last call of the run; the response carries a problem with
  status 400 whose detail names \<open>key\<close>; the error returned is \<^verbatim>\<open>missing parameter: key\<close>;
  \<^verbatim>\<open>SetParam\<close> is called neither for \<open>key\<close> nor for a name after it, and the validator is
  not called.
\<close>

theorem ParseRequest_missing_parameter:
  assumes "decodeManually T (Body r) = Inr s0"
    and "pathParams = pre @ key # post"
    and "\<forall>k \<in> set pre. paramExtractor r k \<noteq> []"
    and "assignManually T (assignments paramExtractor r pre) s0 = Inr t"
    and "paramExtractor r key = []"
  shows "ParseRequest T w r paramExtractor pathParams =
           \<lparr>request = None, err = Some (''missing parameter: '' @ key),
            writer = w @ problemResponse
              \<lparr>Type = ''about:blank'', Title = ''Missing Parameter'', Status = 400,
               Detail = ''Parameter '' @ key @ '' not found in request'', Instance = [],
               Extensions = []\<rparr>
              (JObject [(''type'', JString ''about:blank''),
                        (''title'', JString ''Missing Parameter''),
                        (''status'', JNumber 400),
                        (''detail'', JString (''Parameter '' @ key @ '' not found in request''))]),
            calls = decodeCalls r @ boundCalls paramExtractor r pre @ [Extracted key []]\<rparr> \<and>
         (\<forall>value e. ParamSet key value e
            \<notin> set (calls (ParseRequest T w r paramExtractor pathParams))) \<and>
         (\<forall>v. Validated v \<notin> set (calls (ParseRequest T w r paramExtractor pathParams)))"
proof -
  have loop: "setPathParams T w r paramExtractor (key # post) t =
       \<lparr>request = None, err = Some (''missing parameter: '' @ key),
        writer = SendResponse anyEncoding w 400 AnyNil
                   (Some (NewProblemDetails 400 ''Missing Parameter''
                            (''Parameter '' @ key @ '' not found in request''))) None,
        calls = [Extracted key []]\<rparr>"
    using assms(5) by (simp add: Let_def)
  have res: "ParseRequest T w r paramExtractor pathParams =
           \<lparr>request = None, err = Some (''missing parameter: '' @ key),
            writer = w @ problemResponse
              \<lparr>Type = ''about:blank'', Title = ''Missing Parameter'', Status = 400,
               Detail = ''Parameter '' @ key @ '' not found in request'', Instance = [],
               Extensions = []\<rparr>
              (JObject [(''type'', JString ''about:blank''),
                        (''title'', JString ''Missing Parameter''),
                        (''status'', JNumber 400),
                        (''detail'', JString (''Parameter '' @ key @ '' not found in request''))]),
            calls = decodeCalls r @ boundCalls paramExtractor r pre @ [Extracted key []]\<rparr>"
    unfolding assms(2) ParseRequest_prefix[OF assms(1,3,4)] loop missing_response
    by (simp add: after_def)
  from assms(3,5) have notin: "key \<notin> set pre" by blast
  have "\<forall>value e. ParamSet key value e
            \<notin> set (calls (ParseRequest T w r paramExtractor pathParams))"
    by (simp add: res ParamSet_notin_boundCalls[OF notin] ParamSet_notin_decodeCalls)
  moreover have "\<forall>v. Validated v \<notin> set (calls (ParseRequest T w r paramExtractor pathParams))"
    by (simp add: res Validated_notin_boundCalls Validated_notin_decodeCalls)
  ultimately show ?thesis using res by blast
qed

text \<open>
  The extractor returns the empty string for the first name (the path \<^verbatim>\<open>/test\<close>), and for
  the second after the first was bound (the path \<^verbatim>\<open>/test/123\<close>).
\<close>

theorem ParseRequest_missing_parameter_witness:
  "ParseRequest TestRequestType [] \<lparr>Body = Stream testDocument, Route = ''/test''\<rparr>
     MyParamExtractor [''ID'', ''name''] =
     \<lparr>request = None, err = Some ''missing parameter: ID'',
      writer =
        [HeaderSet ''Content-Type'' ''application/problem+json; charset=utf-8'',
         WriteHeader 400,
         Write (JObject
           [(''type'', JString ''about:blank''),
            (''title'', JString ''Missing Parameter''),
            (''status'', JNumber 400),
            (''detail'', JString ''Parameter ID not found in request'')])],
      calls = [Decoded None, Extracted ''ID'' []]\<rparr> \<and>
   ParseRequest TestRequestType [] \<lparr>Body = Stream testDocument, Route = ''/test/123''\<rparr>
     MyParamExtractor [''ID'', ''name''] =
     \<lparr>request = None, err = Some ''missing parameter: name'',
      writer =
        [HeaderSet ''Content-Type'' ''application/problem+json; charset=utf-8'',
         WriteHeader 400,
         Write (JObject
           [(''type'', JString ''about:blank''),
            (''title'', JString ''Missing Parameter''),
            (''status'', JNumber 400),
            (''detail'', JString ''Parameter name not found in request'')])],
      calls = [Decoded None, Extracted ''ID'' ''123'', ParamSet ''ID'' ''123'' None,
               Extracted ''name'' []]\<rparr>"
proof -
  let ?r0 = "\<lparr>Body = Stream testDocument, Route = ''/test''\<rparr>"
  let ?r1 = "\<lparr>Body = Stream testDocument, Route = ''/test/123''\<rparr>"
  let ?s0 = "\<lparr>ID = 0, Name = ''Test''\<rparr>"
  let ?t = "\<lparr>ID = 123, Name = ''Test''\<rparr>"
  have d0: "decodeManually TestRequestType (Body ?r0) = Inr ?s0"
    and d1: "decodeManually TestRequestType (Body ?r1) = Inr ?s0"
    by (simp_all add: decodeManually_def TestRequestType_def TestRequest_Decode_def)
  have n0: "[''ID'', ''name''] = [] @ ''ID'' # [''name'']"
    and n1: "[''ID'', ''name''] = [''ID''] @ ''name'' # []"
    by simp_all
  have p0: "\<forall>k \<in> set []. MyParamExtractor ?r0 k \<noteq> []"
    and p1: "\<forall>k \<in> set [''ID'']. MyParamExtractor ?r1 k \<noteq> []"
    by (simp_all add: MyParamExtractor_def Split_test_123)
  have a0: "assignManually TestRequestType (assignments MyParamExtractor ?r0 []) ?s0 = Inr ?s0"
    by (simp add: assignments_def)
  have a1: "assignManually TestRequestType (assignments MyParamExtractor ?r1 [''ID'']) ?s0 = Inr ?t"
    by (simp add: assignments_def TestRequest_defs Split_test_123)
  have e0: "MyParamExtractor ?r0 ''ID'' = []"
    and e1: "MyParamExtractor ?r1 ''name'' = []"
    by (simp_all add: MyParamExtractor_def)
  have b1: "boundCalls MyParamExtractor ?r1 [''ID''] =
              [Extracted ''ID'' ''123'', ParamSet ''ID'' ''123'' None]"
    by (simp add: boundCalls_def MyParamExtractor_def Split_test_123)
  show ?thesis
    using ParseRequest_missing_parameter[OF d0 n0 p0 a0 e0, of "[]"]
      ParseRequest_missing_parameter[OF d1 n1 p1 a1 e1, of "[]"]
    by (simp add: problemResponse_def decodeCalls_def b1)
qed

text \<open>
  Claim C3. When the request has a body stream and decoding it fails with the message
  \<open>e\<close>, \<^verbatim>\<open>ParseRequest\<close> writes one response carrying a problem with status 400, title
  \<^verbatim>\<open>Invalid Request\<close> and detail \<open>e\<close>, returns the zero value of the target type (the nil
  pointer) with the decoder's error, and calls neither the parameter extractor nor
  \<^verbatim>\<open>SetParam\<close> nor the validator: the decoder is the only collaborator it called.
\<close>

theorem ParseRequest_decode_error:
  assumes "Body r = Stream content" and "Decode T content = Inl e"
  shows "ParseRequest T w r paramExtractor pathParams =
           \<lparr>request = None, err = Some e,
            writer = w @ problemResponse
                           \<lparr>Type = ''about:blank'', Title = ''Invalid Request'', Status = 400,
                            Detail = e, Instance = [], Extensions = []\<rparr>
                           (JObject ([(''type'', JString ''about:blank''),
                                      (''title'', JString ''Invalid Request''),
                                      (''status'', JNumber 400)]
                                     @ (if e = [] then [] else [(''detail'', JString e)]))),
            calls = [Decoded (Some e)]\<rparr>"
proof -
  let ?p = "NewProblemDetails 400 ''Invalid Request'' e"
  have "SendResponse anyEncoding w 400 AnyNil (Some ?p) None = writeProblemDetail w 400 ?p"
    by (rule SendResponse_problem) simp
  also have "\<dots> = w @ problemResponse ?p
      (JObject ([(''type'', JString ''about:blank''), (''title'', JString ''Invalid Request''),
                 (''status'', JNumber 400)] @ (if e = [] then [] else [(''detail'', JString e)])))"
    by (rule writeProblemDetail_ok) (rule marshal_NewProblemDetails)
  finally show ?thesis
    using assms by (simp add: ParseRequest_def Let_def NewProblemDetails_def)
qed

text \<open>The malformed body of request\_test.go.\<close>

theorem ParseRequest_decode_error_witness:
  "Body \<lparr>Body = Stream ''{invalid-json}'', Route = ''/test/123''\<rparr> = Stream ''{invalid-json}'' \<and>
   Decode TestRequestType ''{invalid-json}'' =
     Inl ''invalid character 'i' looking for beginning of object key string'' \<and>
   ParseRequest TestRequestType [] \<lparr>Body = Stream ''{invalid-json}'', Route = ''/test/123''\<rparr>
     MyParamExtractor [''ID''] =
     \<lparr>request = None,
      err = Some ''invalid character 'i' looking for beginning of object key string'',
      writer =
        [HeaderSet ''Content-Type'' ''application/problem+json; charset=utf-8'',
         WriteHeader 400,
         Write (JObject
           [(''type'', JString ''about:blank''),
            (''title'', JString ''Invalid Request''),
            (''status'', JNumber 400),
            (''detail'',
             JString ''invalid character 'i' looking for beginning of object key string'')])],
      calls = [Decoded (Some ''invalid character 'i' looking for beginning of object key string'')]\<rparr>"
proof -
  let ?r = "\<lparr>Body = Stream ''{invalid-json}'', Route = ''/test/123''\<rparr>"
  have b: "Body ?r = Stream ''{invalid-json}''" by simp
  have d: "Decode TestRequestType ''{invalid-json}'' =
     Inl ''invalid character 'i' looking for beginning of object key string''"
    by (simp add: TestRequestType_def TestRequest_Decode_def testDocument_def quoted_def)
  show ?thesis
    using ParseRequest_decode_error[OF b d, of "[]" MyParamExtractor "[''ID'']"] b d
    by (simp add: problemResponse_def)
qed

text \<open>
  Claim C4. When the body decodes (or there is none), the names before \<open>key\<close> have
  non-empty values whose assignments succeed, the value extracted for \<open>key\<close> is not empty
  and \<^verbatim>\<open>SetParam\<close> fails on it with the error \<open>e\<close>, then: the response carries a problem
  with status 500 whose extensions hold \<open>e\<close> under \<^verbatim>\<open>error\<close>; the error returned is \<open>e\<close>;
  the failing call is the last call of the run, so no later name is extracted or assigned;
  and the validator is not called.
\<close>

theorem ParseRequest_SetParam_error:
  assumes "decodeManually T (Body r) = Inr s0"
    and "pathParams = pre @ key # post"
    and "\<forall>k \<in> set pre. paramExtractor r k \<noteq> []"
    and "assignManually T (assignments paramExtractor r pre) s0 = Inr t"
    and "paramExtractor r key \<noteq> []"
    and "SetParam T key (paramExtractor r key) t = Inl e"
  shows "ParseRequest T w r paramExtractor pathParams =
           \<lparr>request = None, err = Some e,
            writer = w @ problemResponse
              \<lparr>Type = ''about:blank'', Title = ''Parameter Error'', Status = 500,
               Detail = ''Failed to set field '' @ key, Instance = [],
               Extensions = [(''error'', AnyString e)]\<rparr>
              (JObject [(''type'', JString ''about:blank''),
                        (''title'', JString ''Parameter Error''),
                        (''status'', JNumber 500),
                        (''detail'', JString (''Failed to set field '' @ key)),
                        (''extensions'', JObject [(''error'', JString e)])]),
            calls = decodeCalls r @ boundCalls paramExtractor r pre
                      @ [Extracted key (paramExtractor r key),
                         ParamSet key (paramExtractor r key) (Some e)]\<rparr> \<and>
         (\<forall>v. Validated v \<notin> set (calls (ParseRequest T w r paramExtractor pathParams)))"
proof -
  have loop: "setPathParams T w r paramExtractor (key # post) t =
       \<lparr>request = None, err = Some e,
        writer = SendResponse anyEncoding w 500 AnyNil
                   (Some ((NewProblemDetails 500 ''Parameter Error'' (''Failed to set field '' @ key))
                            \<lparr>Extensions := [(''error'', AnyString e)]\<rparr>)) None,
        calls = [Extracted key (paramExtractor r key),
                 ParamSet key (paramExtractor r key) (Some e)]\<rparr>"
    using assms(5,6) by (simp add: Let_def)
  have res: "ParseRequest T w r paramExtractor pathParams =
           \<lparr>request = None, err = Some e,
            writer = w @ problemResponse
              \<lparr>Type = ''about:blank'', Title = ''Parameter Error'', Status = 500,
               Detail = ''Failed to set field '' @ key, Instance = [],
               Extensions = [(''error'', AnyString e)]\<rparr>
              (JObject [(''type'', JString ''about:blank''),
                        (''title'', JString ''Parameter Error''),
                        (''status'', JNumber 500),
                        (''detail'', JString (''Failed to set field '' @ key)),
                        (''extensions'', JObject [(''error'', JString e)])]),
            calls = decodeCalls r @ boundCalls paramExtractor r pre
                      @ [Extracted key (paramExtractor r key),
                         ParamSet key (paramExtractor r key) (Some e)]\<rparr>"
    unfolding assms(2) ParseRequest_prefix[OF assms(1,3,4)] loop paramError_response
    by (simp add: after_def)
  have "\<forall>v. Validated v \<notin> set (calls (ParseRequest T w r paramExtractor pathParams))"
    by (simp add: res Validated_notin_boundCalls Validated_notin_decodeCalls)
  with res show ?thesis by blast
qed

text \<open>
  Three names, with query parameters: \<^verbatim>\<open>name\<close> is assigned, \<^verbatim>\<open>SetParam\<close> rejects the value of
  \<^verbatim>\<open>id\<close>, and \<^verbatim>\<open>other\<close> is never extracted.
\<close>

theorem ParseRequest_SetParam_error_witness:
  "ParseRequest TestRequestType []
     \<lparr>Body = Stream ''{}'', Route = [(''name'', ''Test''), (''id'', ''abc'')]\<rparr>
     QueryParamExtractor [''name'', ''id'', ''other''] =
     \<lparr>request = None, err = Some ''invalid id'',
      writer =
        [HeaderSet ''Content-Type'' ''application/problem+json; charset=utf-8'',
         WriteHeader 500,
         Write (JObject
           [(''type'', JString ''about:blank''),
            (''title'', JString ''Parameter Error''),
            (''status'', JNumber 500),
            (''detail'', JString ''Failed to set field id''),
            (''extensions'', JObject [(''error'', JString ''invalid id'')])])],
      calls = [Decoded None, Extracted ''name'' ''Test'', ParamSet ''name'' ''Test'' None,
               Extracted ''id'' ''abc'', ParamSet ''id'' ''abc'' (Some ''invalid id'')]\<rparr>"
proof -
  let ?r = "\<lparr>Body = Stream ''{}'', Route = [(''name'', ''Test''), (''id'', ''abc'')]\<rparr>"
  let ?s0 = "\<lparr>ID = 0, Name = []\<rparr>"
  have d: "decodeManually TestRequestType (Body ?r) = Inr ?s0"
    by (simp add: decodeManually_def TestRequestType_def TestRequest_Decode_def
        testDocument_def quoted_def)
  have n: "[''name'', ''id'', ''other''] = [''name''] @ ''id'' # [''other'']"
    by simp
  have p: "\<forall>k \<in> set [''name'']. QueryParamExtractor ?r k \<noteq> []"
    by (simp add: QueryParamExtractor_def)
  have a: "assignManually TestRequestType (assignments QueryParamExtractor ?r [''name'']) ?s0 = Inr ?s0"
    by (simp add: assignments_def QueryParamExtractor_def TestRequest_defs)
  have v: "QueryParamExtractor ?r ''id'' = ''abc''"
    by (simp add: QueryParamExtractor_def)
  have e: "QueryParamExtractor ?r ''id'' \<noteq> []"
    by (simp add: v)
  have f: "SetParam TestRequestType ''id'' (QueryParamExtractor ?r ''id'') ?s0 = Inl ''invalid id''"
    by (simp add: v TestRequest_defs)
  have b: "boundCalls QueryParamExtractor ?r [''name''] =
              [Extracted ''name'' ''Test'', ParamSet ''name'' ''Test'' None]"
    by (simp add: boundCalls_def QueryParamExtractor_def)
  show ?thesis
    using ParseRequest_SetParam_error[OF d n p a e f, of "[]"]
    by (simp add: problemResponse_def decodeCalls_def b v)
qed



section \<open>The validation adapter\<close>

text \<open>
  Claim C6, as the code has it. When the validator reports no violated constraint,
  \<^verbatim>\<open>IsRequestValid\<close> returns nil. When it reports the violated constraints \<open>ves\<close>, the
  problem returned holds one error detail per violated constraint, in the order of \<open>ves\<close>:
  the detail's field is the constraint's field name and its message is
  \<^verbatim>\<open><Field> failed <Tag> validation\<close>. So the messages of one field are that field's
  violations in encounter order; a field violated twice has two entries.
\<close>

theorem IsRequestValid_report:
  "(validate req = None \<longrightarrow> IsRequestValid validate req = None) \<and>
   (validate req = Some (ValidationErrors ves) \<longrightarrow>
      (\<exists>p ds. IsRequestValid validate req = Some p \<and>
         Extensions p = [(''errors'', AnyErrorDetails ds)] \<and>
         length ds = length ves \<and>
         (\<forall>i < length ves.
            Field (ds ! i) = FieldError.Field (ves ! i) \<and>
            Message (ds ! i) =
              FieldError.Field (ves ! i) @ '' failed '' @ Tag (ves ! i) @ '' validation'') \<and>
         (\<forall>f. map Message (filter (\<lambda>d. Field d = f) ds) =
               map (\<lambda>v. FieldError.Field v @ '' failed '' @ Tag v @ '' validation'')
                 (filter (\<lambda>v. FieldError.Field v = f) ves))))"
proof (intro conjI impI)
  assume "validate req = None"
  then show "IsRequestValid validate req = None" by (simp add: IsRequestValid_def)
next
  assume v: "validate req = Some (ValidationErrors ves)"
  have filt: "map Message (filter (\<lambda>d. Field d = f) (errorDetailsOf ves)) =
               map (\<lambda>v. FieldError.Field v @ '' failed '' @ Tag v @ '' validation'')
                 (filter (\<lambda>v. FieldError.Field v = f) ves)" for f
    by (induction ves) (simp_all add: errorDetailsOf_def formatValidationMessage_def)
  from v have "IsRequestValid validate req = Some (NewValidationProblemDetails (ValidationErrors ves))"
    by (simp add: IsRequestValid_def)
  moreover have "Extensions (NewValidationProblemDetails (ValidationErrors ves)) =
      [(''errors'', AnyErrorDetails (errorDetailsOf ves))]"
    by (simp add: NewValidationProblemDetails_def)
  moreover have "length (errorDetailsOf ves) = length ves" by (simp add: errorDetailsOf_def)
  moreover have "\<forall>i < length ves.
            Field (errorDetailsOf ves ! i) = FieldError.Field (ves ! i) \<and>
            Message (errorDetailsOf ves ! i) =
              FieldError.Field (ves ! i) @ '' failed '' @ Tag (ves ! i) @ '' validation''"
    by (simp add: errorDetailsOf_def formatValidationMessage_def)
  ultimately show "\<exists>p ds. IsRequestValid validate req = Some p \<and>
         Extensions p = [(''errors'', AnyErrorDetails ds)] \<and>
         length ds = length ves \<and>
         (\<forall>i < length ves.
            Field (ds ! i) = FieldError.Field (ves ! i) \<and>
            Message (ds ! i) =
              FieldError.Field (ves ! i) @ '' failed '' @ Tag (ves ! i) @ '' validation'') \<and>
         (\<forall>f. map Message (filter (\<lambda>d. Field d = f) ds) =
               map (\<lambda>v. FieldError.Field v @ '' failed '' @ Tag v @ '' validation'')
                 (filter (\<lambda>v. FieldError.Field v = f) ves))"
    using filt by blast
qed

text \<open>A valid \<^verbatim>\<open>TestRequest\<close>, and the empty one, which violates two constraints.\<close>

theorem IsRequestValid_report_witness:
  "TestRequest_validate \<lparr>ID = 25, Name = ''Alice''\<rparr> = None \<and>
   IsRequestValid TestRequest_validate \<lparr>ID = 25, Name = ''Alice''\<rparr> = None \<and>
   TestRequest_validate \<lparr>ID = 0, Name = []\<rparr> =
     Some (ValidationErrors [FieldError ''ID'' ''required'', FieldError ''Name'' ''required'']) \<and>
   (\<exists>p ds. IsRequestValid TestRequest_validate \<lparr>ID = 0, Name = []\<rparr> = Some p \<and>
      Extensions p = [(''errors'', AnyErrorDetails ds)] \<and> length ds = 2 \<and>
      Field (ds ! 0) = ''ID'' \<and> Message (ds ! 0) = ''ID failed required validation'' \<and>
      Field (ds ! 1) = ''Name'' \<and> Message (ds ! 1) = ''Name failed required validation'')"
proof -
  have ok: "TestRequest_validate \<lparr>ID = 25, Name = ''Alice''\<rparr> = None"
    by (simp add: TestRequest_validate_def)
  have bad: "TestRequest_validate \<lparr>ID = 0, Name = []\<rparr> =
     Some (ValidationErrors [FieldError ''ID'' ''required'', FieldError ''Name'' ''required''])"
    by (simp add: TestRequest_validate_def)
  from IsRequestValid_report[of TestRequest_validate "\<lparr>ID = 0, Name = []\<rparr>"
      "[FieldError ''ID'' ''required'', FieldError ''Name'' ''required'']"] bad
  obtain p ds where
    "IsRequestValid TestRequest_validate \<lparr>ID = 0, Name = []\<rparr> = Some p"
    "Extensions p = [(''errors'', AnyErrorDetails ds)]" "length ds = 2"
    "\<forall>i < 2. Field (ds ! i) = FieldError.Field ([FieldError ''ID'' ''required'', FieldError ''Name'' ''required''] ! i) \<and>
            Message (ds ! i) =
              FieldError.Field ([FieldError ''ID'' ''required'', FieldError ''Name'' ''required''] ! i) @ '' failed '' @ Tag ([FieldError ''ID'' ''required'', FieldError ''Name'' ''required''] ! i) @ '' validation''"
    by auto
  then have "\<exists>p ds. IsRequestValid TestRequest_validate \<lparr>ID = 0, Name = []\<rparr> = Some p \<and>
      Extensions p = [(''errors'', AnyErrorDetails ds)] \<and> length ds = 2 \<and>
      Field (ds ! 0) = ''ID'' \<and> Message (ds ! 0) = ''ID failed required validation'' \<and>
      Field (ds ! 1) = ''Name'' \<and> Message (ds ! 1) = ''Name failed required validation''"
    by (intro exI[of _ p] exI[of _ ds]) (simp add: numeral_2_eq_2 less_Suc_eq)
  with ok bad IsRequestValid_report[of TestRequest_validate "\<lparr>ID = 25, Name = ''Alice''\<rparr>"]
  show ?thesis by blast
qed

text \<open>
  The entries are not one per violating field: two violations that name the field
  \<^verbatim>\<open>Street\<close> (the same field of two nested structs, say) give two entries for the one field.
\<close>

theorem IsRequestValid_entries_counterexample:
  "IsRequestValid
     (\<lambda>req. Some (ValidationErrors [FieldError ''Street'' ''required'', FieldError ''Street'' ''required'']))
     () =
   Some \<lparr>Type = ''https://example.com/validation-error'', Title = ''Validation Error'',
         Status = 400, Detail = ''One or more fields failed validation.'', Instance = [],
         Extensions =
           [(''errors'', AnyErrorDetails
              [\<lparr>Field = ''Street'', Message = ''Street failed required validation''\<rparr>,
               \<lparr>Field = ''Street'', Message = ''Street failed required validation''\<rparr>])]\<rparr> \<and>
   length (remdups (map FieldError.Field
     [FieldError ''Street'' ''required'', FieldError ''Street'' ''required''])) = 1 \<and>
   length [\<lparr>Field = ''Street'', Message = ''Street failed required validation''\<rparr>,
           \<lparr>Field = ''Street'', Message = ''Street failed required validation''\<rparr>] = 2"
  by (simp add: IsRequestValid_def NewValidationProblemDetails_def errorDetailsOf_def
      formatValidationMessage_def)

section \<open>The problem-type registry\<close>

text \<open>
  Claim C7. For every registry state and every category key: when the key is in the
  category-to-path map, \<^verbatim>\<open>GetProblemTypeURL\<close> returns the effective base URL (the empty
  string while the stored base URL is the sentinel \<^verbatim>\<open>about:blank\<close>) followed by the key's
  path; when the key is absent it returns the sentinel \<^verbatim>\<open>about:blank\<close> itself, and no
  concatenation.
\<close>

theorem GetProblemTypeURL_resolves:
  "(errorTypePaths st errorType = Some path \<longrightarrow>
      GetProblemTypeURL st errorType =
        (if problemBaseURL st = ''about:blank'' then [] else problemBaseURL st) @ path) \<and>
   (errorTypePaths st errorType = None \<longrightarrow> GetProblemTypeURL st errorType = ''about:blank'')"
  by (simp add: GetProblemTypeURL_def getProblemBaseURL_def BlankUrl_def)

text \<open>
  Scenario 5 of the specification, and the registry as the package initialises it.
\<close>

theorem GetProblemTypeURL_resolves_witness:
  "GetProblemTypeURL
     (SetProblemErrorTypePath ''validation_error'' ''/errors/validation-error''
        (SetProblemBaseURL ''https://api.example.com'' initialRegistry))
     ''validation_error'' = ''https://api.example.com/errors/validation-error'' \<and>
   GetProblemTypeURL
     (SetProblemErrorTypePath ''validation_error'' ''/errors/validation-error''
        (SetProblemBaseURL ''https://api.example.com'' initialRegistry))
     ''unknown_category'' = ''about:blank'' \<and>
   GetProblemTypeURL initialRegistry ''validation_error'' = ''/errors/validation-error''"
proof -
  let ?st = "SetProblemErrorTypePath ''validation_error'' ''/errors/validation-error''
               (SetProblemBaseURL ''https://api.example.com'' initialRegistry)"
  have known: "errorTypePaths ?st ''validation_error'' = Some ''/errors/validation-error''"
    by (simp add: SetProblemErrorTypePath_def)
  have unknown: "errorTypePaths ?st ''unknown_category'' = None"
    by (simp add: SetProblemErrorTypePath_def SetProblemBaseURL_def initialRegistry_def)
  have base: "problemBaseURL ?st = ''https://api.example.com''"
    by (simp add: SetProblemErrorTypePath_def SetProblemBaseURL_def)
  have initial: "errorTypePaths initialRegistry ''validation_error'' = Some ''/errors/validation-error''"
    "problemBaseURL initialRegistry = ''about:blank''"
    by (simp_all add: initialRegistry_def BlankUrl_def)
  show ?thesis
    using GetProblemTypeURL_resolves[of ?st "''validation_error''" "''/errors/validation-error''"]
      GetProblemTypeURL_resolves[of ?st "''unknown_category''"]
      GetProblemTypeURL_resolves[of initialRegistry "''validation_error''" "''/errors/validation-error''"]
      known unknown base initial
    by simp
qed

section \<open>The pipeline as a whole\<close>

text \<open>
  Claim C8. When the body decodes (or there is none), every path parameter has a non-empty
  value, the assignments of these values in order succeed and give the target \<open>t\<close>, and
  \<open>t\<close> passes validation, then \<^verbatim>\<open>ParseRequest\<close> returns \<open>t\<close>, the target built by hand
  from the same inputs, and no error.
\<close>

theorem ParseRequest_round_trip:
  assumes "decodeManually T (Body r) = Inr s0"
    and "\<forall>key \<in> set pathParams. paramExtractor r key \<noteq> []"
    and "assignManually T (assignments paramExtractor r pathParams) s0 = Inr t"
    and "validateStruct T t = None"
  shows "request (ParseRequest T w r paramExtractor pathParams) = Some t \<and>
         err (ParseRequest T w r paramExtractor pathParams) = None"
proof -
  have "ParseRequest T w r paramExtractor pathParams =
          after (decodeCalls r) (after (boundCalls paramExtractor r pathParams) (validateAndReturn T w t))"
    using ParseRequest_decoded[OF assms(1)] setPathParams_bound[OF assms(2,3)] by simp
  with assms(4) show ?thesis
    by (simp add: validateAndReturn_def IsRequestValid_def)
qed

text \<open>The successful request of request\_test.go.\<close>

theorem ParseRequest_round_trip_witness:
  "decodeManually TestRequestType
     (Stream testDocument) =
     Inr \<lparr>ID = 0, Name = ''Test''\<rparr> \<and>
   assignManually TestRequestType [(''ID'', ''123'')] \<lparr>ID = 0, Name = ''Test''\<rparr> =
     Inr \<lparr>ID = 123, Name = ''Test''\<rparr> \<and>
   validateStruct TestRequestType \<lparr>ID = 123, Name = ''Test''\<rparr> = None \<and>
   request (ParseRequest TestRequestType []
     \<lparr>Body = Stream testDocument,
      Route = ''/test/123''\<rparr>
     MyParamExtractor [''ID'']) = Some \<lparr>ID = 123, Name = ''Test''\<rparr> \<and>
   err (ParseRequest TestRequestType []
     \<lparr>Body = Stream testDocument,
      Route = ''/test/123''\<rparr>
     MyParamExtractor [''ID'']) = None"
proof -
  let ?b = "Stream testDocument"
  let ?r = "\<lparr>Body = ?b, Route = ''/test/123''\<rparr>"
  have d: "decodeManually TestRequestType (Body ?r) = Inr \<lparr>ID = 0, Name = ''Test''\<rparr>"
    by (simp add: decodeManually_def TestRequest_defs)
  have e: "\<forall>key \<in> set [''ID'']. MyParamExtractor ?r key \<noteq> []"
    by (simp add: MyParamExtractor_def Split_test_123)
  have a: "assignManually TestRequestType (assignments MyParamExtractor ?r [''ID''])
             \<lparr>ID = 0, Name = ''Test''\<rparr> = Inr \<lparr>ID = 123, Name = ''Test''\<rparr>"
    by (simp add: assignments_def TestRequest_defs Split_test_123)
  have a': "assignments MyParamExtractor ?r [''ID''] = [(''ID'', ''123'')]"
    by (simp add: assignments_def MyParamExtractor_def Split_test_123)
  have v: "validateStruct TestRequestType \<lparr>ID = 123, Name = ''Test''\<rparr> = None"
    by (simp add: TestRequest_defs)
  show ?thesis
    using ParseRequest_round_trip[OF d e a v, of "[]"] d a v unfolding a'
    by simp
qed

text \<open>
  Claim C9. A run of \<^verbatim>\<open>ParseRequest\<close> that returns an error has written exactly one
  response, through \<^verbatim>\<open>SendResponse\<close>: one content type, one status and one body, which
  carry a problem. A run that returns no error leaves the response writer as it was.
\<close>

theorem ParseRequest_one_response_on_failure:
  "(err (ParseRequest T w r paramExtractor pathParams) \<noteq> None \<longrightarrow>
      (\<exists>p doc. 400 \<le> Status p \<and> marshalProblemDetails p = Inr doc \<and>
         writer (ParseRequest T w r paramExtractor pathParams) =
           SendResponse anyEncoding w (Status p) AnyNil (Some p) None \<and>
         writer (ParseRequest T w r paramExtractor pathParams) =
           w @ [HeaderSet ''Content-Type'' ''application/problem+json; charset=utf-8'',
                WriteHeader (Status p), Write doc])) \<and>
   (err (ParseRequest T w r paramExtractor pathParams) = None \<longrightarrow>
      writer (ParseRequest T w r paramExtractor pathParams) = w)"
  using ParseRequest_exit[where w = w and T = T and r = r and ext = paramExtractor and names = pathParams]
  by (auto simp add: problemResponse_def)

text \<open>A failing run and a successful one.\<close>

theorem ParseRequest_one_response_on_failure_witness:
  "err (ParseRequest TestRequestType [] \<lparr>Body = NoBody, Route = ''/test/123''\<rparr>
          MyParamExtractor [''ID'', ''name'']) \<noteq> None \<and>
   (\<exists>p doc. 400 \<le> Status p \<and> marshalProblemDetails p = Inr doc \<and>
      writer (ParseRequest TestRequestType [] \<lparr>Body = NoBody, Route = ''/test/123''\<rparr>
                MyParamExtractor [''ID'', ''name'']) =
        [HeaderSet ''Content-Type'' ''application/problem+json; charset=utf-8'',
         WriteHeader (Status p), Write doc]) \<and>
   err (ParseRequest TestRequestType []
     \<lparr>Body = Stream testDocument,
      Route = ''/test/123''\<rparr>
     MyParamExtractor [''ID'']) = None \<and>
   writer (ParseRequest TestRequestType []
     \<lparr>Body = Stream testDocument,
      Route = ''/test/123''\<rparr>
     MyParamExtractor [''ID'']) = []"
proof -
  let ?r = "\<lparr>Body = NoBody, Route = ''/test/123''\<rparr>"
  let ?r' = "\<lparr>Body = Stream testDocument,
      Route = ''/test/123''\<rparr>"
  have f: "err (ParseRequest TestRequestType [] ?r MyParamExtractor [''ID'', ''name'']) \<noteq> None"
    by (simp add: run_missing_parameter)
  have s: "err (ParseRequest TestRequestType [] ?r' MyParamExtractor [''ID'']) = None"
    by (simp add: run_success)
  show ?thesis
    using f s
      ParseRequest_one_response_on_failure[of TestRequestType "[]" ?r MyParamExtractor "[''ID'', ''name'']"]
      ParseRequest_one_response_on_failure[of TestRequestType "[]" ?r' MyParamExtractor "[''ID'']"]
    by auto
qed

text \<open>
  Claim C10. On every failure path (decoding, a missing parameter, a failed assignment,
  validation) \<^verbatim>\<open>ParseRequest\<close> returns the zero value of the target type, the nil
  pointer, and not the request it was assembling.
\<close>

theorem ParseRequest_failure_returns_zero:
  "err (ParseRequest T w r paramExtractor pathParams) \<noteq> None \<longrightarrow>
     request (ParseRequest T w r paramExtractor pathParams) = None"
  using ParseRequest_exit[where w = w and T = T and r = r and ext = paramExtractor and names = pathParams] by auto

text \<open>The run in which \<^verbatim>\<open>SetParam\<close> fails after the target was allocated.\<close>

theorem ParseRequest_failure_returns_zero_witness:
  "err (ParseRequest TestRequestType [] \<lparr>Body = NoBody, Route = ''/test/abc''\<rparr>
          MyParamExtractor [''ID'', ''name'']) \<noteq> None \<and>
   request (ParseRequest TestRequestType [] \<lparr>Body = NoBody, Route = ''/test/abc''\<rparr>
          MyParamExtractor [''ID'', ''name'']) = None"
proof -
  let ?r = "\<lparr>Body = NoBody, Route = ''/test/abc''\<rparr>"
  have f: "err (ParseRequest TestRequestType [] ?r MyParamExtractor [''ID'', ''name'']) \<noteq> None"
    by (simp add: run_invalid_id)
  show ?thesis
    using f ParseRequest_failure_returns_zero[of TestRequestType "[]" ?r MyParamExtractor "[''ID'', ''name'']"]
    by blast
qed

end
